theory Spec2Isabelle
  imports Main "HOL-Library.Sublist"
begin

section \<open>The world the three scripts run in\<close>

text \<open>
  The scripts \<^verbatim>\<open>ssh_download.py\<close>, \<^verbatim>\<open>ssh_mac.py\<close> and
  \<^verbatim>\<open>ssh_mac_interactive.py\<close> are linear procedures over an SSH client library, the
  console and the clock. The embedding passes an explicit world through every step:
  \<^item> Python's \<^verbatim>\<open>str\<close> and \<^verbatim>\<open>bytes\<close> are both character lists; a \<^verbatim>\<open>str\<close>
    is held in its UTF-8 form, so decoding is the validation of a byte list;
  \<^item> the clock counts tenths of a second (every duration in the source is a multiple
    of 0.1 s) and advances in \<^verbatim>\<open>time.sleep\<close> only;
  \<^item> every operation on the outside (a call into the library, a \<^verbatim>\<open>print\<close>, a sleep,
    closing the client) is appended to a trace, stamped with the clock, and counted;
  \<^item> every such operation may raise: \<open>fault env n\<close> is the exception that the
    \<open>n\<close>-th operation of the run raises, if any. An exception is either an instance
    of Python's \<^verbatim>\<open>Exception\<close> or one outside that class (\<^verbatim>\<open>KeyboardInterrupt\<close>,
    \<^verbatim>\<open>SystemExit\<close>); all the scripts ever do with one is \<^verbatim>\<open>str(e)\<close>, so it carries
    that text;
  \<^item> the remote side is a script \<open>env\<close> that the run cannot change: besides the
    faults, \<open>remote_exec env\<close> gives the stdout and stderr bytes of a remote command,
    and \<open>feed env t\<close> the bytes that the remote shell emits at tick \<open>t\<close>.
  Reading the clock, decoding and string operations are not operations on the outside;
  of these only decoding raises, and it does so by its own rules.
\<close>

type_synonym bytes = "char list"

datatype exn =
    Exception string
  | BaseException string

fun str_exn :: "exn \<Rightarrow> string" where
  "str_exn (Exception msg) = msg"
| "str_exn (BaseException msg) = msg"

datatype event =
    NewClient
  | SetPolicy
  | Print string
  | Connect string string string
  | OpenSftp
  | SftpGet string string
  | SftpClose
  | ExecCommand string
  | ReadStdout
  | ReadStderr
  | InvokeShell
  | SetTimeout int
  | Sleep int
  | RecvReady
  | Recv nat
  | Send string
  | Close

record remote =
  fault :: "nat \<Rightarrow> exn option"
  remote_exec :: "string \<Rightarrow> bytes \<times> bytes"
  feed :: "int \<Rightarrow> bytes"

record world =
  clock :: int
  ncalls :: nat
  inbuf :: bytes
  trace :: "(int \<times> event) list"

definition log :: "event \<Rightarrow> world \<Rightarrow> world" where
  "log ev w = w\<lparr>trace := trace w @ [(clock w, ev)]\<rparr>"

text \<open>An operation on the outside: logged, counted, and it raises when the fault plan says so.\<close>

definition call :: "remote \<Rightarrow> event \<Rightarrow> world \<Rightarrow> exn option \<times> world" where
  "call env ev w = (fault env (ncalls w), (log ev w)\<lparr>ncalls := Suc (ncalls w)\<rparr>)"

text \<open>\<^verbatim>\<open>print(s)\<close> writes \<open>s\<close> and a newline; \<^verbatim>\<open>print(s, end='')\<close> writes \<open>s\<close>.\<close>

definition newline :: string where
  "newline = [CHR 0x0A]"

definition py_print :: "remote \<Rightarrow> string \<Rightarrow> world \<Rightarrow> exn option \<times> world" where
  "py_print env s w = call env (Print (s @ newline)) w"

definition py_print_noend :: "remote \<Rightarrow> string \<Rightarrow> world \<Rightarrow> exn option \<times> world" where
  "py_print_noend env s w = call env (Print s) w"

definition client_close :: "remote \<Rightarrow> world \<Rightarrow> exn option \<times> world" where
  "client_close env w = call env Close w"

text \<open>
  \<^verbatim>\<open>time.sleep(d)\<close> moves the clock by \<open>d\<close> ticks; what the remote shell emits in
  the meantime lands in the channel's buffer. A sleep that raises is cut off at once.
\<close>

definition py_sleep :: "remote \<Rightarrow> int \<Rightarrow> world \<Rightarrow> exn option \<times> world" where
  "py_sleep env d w =
     (case call env (Sleep d) w of
        (Some e, w') \<Rightarrow> (Some e, w')
      | (None, w') \<Rightarrow>
          (None, w'\<lparr>clock := clock w + d,
                   inbuf := inbuf w @ concat (map (feed env) [clock w + 1 .. clock w + d])\<rparr>))"

subsection \<open>\<^verbatim>\<open>try\<close> ... \<^verbatim>\<open>except Exception\<close> ... \<^verbatim>\<open>finally\<close>\<close>

text \<open>
  All three functions wrap their body the same way. The body's outcome is \<open>Inr v\<close> when
  it returns \<open>v\<close> and \<open>Inl e\<close> when it raises \<open>e\<close>. An \<^verbatim>\<open>Exception\<close> goes to the
  handler, which prints \<^verbatim>\<open>Error: ...\<close> and returns \<open>handler msg\<close>; anything else
  passes the handler by. The \<^verbatim>\<open>finally\<close> block closes the client in every case, and
  what the close raises replaces whatever was on its way out.
\<close>

definition except_finally ::
  "remote \<Rightarrow> (string \<Rightarrow> 'a) \<Rightarrow> (exn + 'a) \<times> world \<Rightarrow> (exn + 'a) \<times> world" where
  "except_finally env handler r =
     (case r of
        (Inr v, w) \<Rightarrow>
          (case client_close env w of
             (Some e', w') \<Rightarrow> (Inl e', w')
           | (None, w') \<Rightarrow> (Inr v, w'))
      | (Inl (Exception msg), w) \<Rightarrow>
          (case py_print env (''Error: '' @ msg) w of
             (Some e1, w1) \<Rightarrow>
               (case client_close env w1 of
                  (Some e', w') \<Rightarrow> (Inl e', w')
                | (None, w') \<Rightarrow> (Inl e1, w'))
           | (None, w1) \<Rightarrow>
               (case client_close env w1 of
                  (Some e', w') \<Rightarrow> (Inl e', w')
                | (None, w') \<Rightarrow> (Inr (handler msg), w')))
      | (Inl (BaseException msg), w) \<Rightarrow>
          (case client_close env w of
             (Some e', w') \<Rightarrow> (Inl e', w')
           | (None, w') \<Rightarrow> (Inl (BaseException msg), w')))"

text \<open>
  The two statements in front of every \<^verbatim>\<open>try\<close>: \<^verbatim>\<open>client = paramiko.SSHClient()\<close>
  and \<^verbatim>\<open>client.set_missing_host_key_policy(paramiko.AutoAddPolicy())\<close>. What they
  raise leaves the function at once.
\<close>

definition new_client :: "remote \<Rightarrow> world \<Rightarrow> exn option \<times> world" where
  "new_client env w =
     (case call env NewClient w of
        (Some e, w1) \<Rightarrow> (Some e, w1)
      | (None, w1) \<Rightarrow> call env SetPolicy w1)"

subsection \<open>\<^verbatim>\<open>bytes.decode\<close>\<close>

text \<open>
  The UTF-8 decoder of the Python runtime, with its three error handlers. \<open>utf8_next\<close>
  looks at the head of the input and says how many bytes form the next well-formed
  sequence, or how many bytes the malformed range has and why. With \<^verbatim>\<open>strict\<close> a
  malformed range raises \<^verbatim>\<open>UnicodeDecodeError\<close> (an \<^verbatim>\<open>Exception\<close>), with
  \<^verbatim>\<open>ignore\<close> it is skipped, with \<^verbatim>\<open>replace\<close> it becomes U+FFFD (the bytes
  EF BF BD).
\<close>

definition digit_char :: "nat \<Rightarrow> char" where
  "digit_char d = (if d < 10 then char_of (48 + d) else char_of (87 + d))"

fun dec :: "nat \<Rightarrow> string" where
  "dec n = (if n < 10 then [digit_char n] else dec (n div 10) @ [digit_char (n mod 10)])"

definition dec_int :: "int \<Rightarrow> string" where
  "dec_int i = (if i < 0 then ''-'' @ dec (nat (- i)) else dec (nat i))"

definition hex2 :: "nat \<Rightarrow> string" where
  "hex2 n = [digit_char (n div 16 mod 16), digit_char (n mod 16)]"

text \<open>
  The exception for the malformed range of \<open>n\<close> bytes at \<open>start\<close> of \<open>obj\<close>, as
  \<^verbatim>\<open>str\<close> shows it (\<open>start\<close> and \<open>start + n\<close> are its \<^verbatim>\<open>start\<close> and \<^verbatim>\<open>end\<close>).
\<close>

definition unicode_decode_error :: "bytes \<Rightarrow> nat \<Rightarrow> nat \<Rightarrow> string \<Rightarrow> exn" where
  "unicode_decode_error obj start n reason =
     Exception
       (if n = 1 \<and> start < length obj
        then '''utf-8' codec can't decode byte 0x'' @ hex2 (of_char (obj ! start))
             @ '' in position '' @ dec start @ '': '' @ reason
        else '''utf-8' codec can't decode bytes in position '' @ dec start @ ''-''
             @ dec_int (int start + int n - 1) @ '': '' @ reason)"

datatype errors = Strict | Ignore | Replace

datatype verdict = Valid nat | Invalid nat string

definition is_cont :: "char \<Rightarrow> bool" where
  "is_cont c = (0x80 \<le> (of_char c :: nat) \<and> (of_char c :: nat) < 0xC0)"

definition bad_second :: "nat \<Rightarrow> nat \<Rightarrow> nat \<Rightarrow> nat \<Rightarrow> char \<Rightarrow> bool" where
  "bad_second ch lo_lead hi_lead bound c2 =
     (if is_cont c2
      then (if (of_char c2 :: nat) < bound then ch = lo_lead else ch = hi_lead)
      else True)"

fun utf8_next :: "bytes \<Rightarrow> verdict" where
  "utf8_next [] = Valid 0"
| "utf8_next (c # cs) =
     (let ch = (of_char c :: nat) in
      if ch < 0x80 then Valid 1
      else if ch < 0xC2 then Invalid 1 ''invalid start byte''
      else if ch < 0xE0 then
        (case cs of
           [] \<Rightarrow> Invalid 1 ''unexpected end of data''
         | c2 # _ \<Rightarrow>
             if is_cont c2 then Valid 2 else Invalid 1 ''invalid continuation byte'')
      else if ch < 0xF0 then
        (case cs of
           [] \<Rightarrow> Invalid 1 ''unexpected end of data''
         | [c2] \<Rightarrow>
             if bad_second ch 0xE0 0xED 0xA0 c2 then Invalid 1 ''invalid continuation byte''
             else Invalid 2 ''unexpected end of data''
         | c2 # c3 # _ \<Rightarrow>
             if bad_second ch 0xE0 0xED 0xA0 c2 then Invalid 1 ''invalid continuation byte''
             else if is_cont c3 then Valid 3
             else Invalid 2 ''invalid continuation byte'')
      else if ch < 0xF5 then
        (case cs of
           [] \<Rightarrow> Invalid 1 ''unexpected end of data''
         | [c2] \<Rightarrow>
             if bad_second ch 0xF0 0xF4 0x90 c2 then Invalid 1 ''invalid continuation byte''
             else Invalid 2 ''unexpected end of data''
         | [c2, c3] \<Rightarrow>
             if bad_second ch 0xF0 0xF4 0x90 c2 then Invalid 1 ''invalid continuation byte''
             else if is_cont c3 then Invalid 3 ''unexpected end of data''
             else Invalid 2 ''invalid continuation byte''
         | c2 # c3 # c4 # _ \<Rightarrow>
             if bad_second ch 0xF0 0xF4 0x90 c2 then Invalid 1 ''invalid continuation byte''
             else if is_cont c3 then
               (if is_cont c4 then Valid 4 else Invalid 3 ''invalid continuation byte'')
             else Invalid 2 ''invalid continuation byte'')
      else Invalid 1 ''invalid start byte'')"

definition replacement_character :: string where
  "replacement_character = [CHR 0xEF, CHR 0xBF, CHR 0xBD]"

fun decode_from :: "errors \<Rightarrow> bytes \<Rightarrow> nat \<Rightarrow> bytes \<Rightarrow> exn + string" where
  "decode_from h obj pos [] = Inr []"
| "decode_from h obj pos (c # cs) =
     (case utf8_next (c # cs) of
        Valid n \<Rightarrow>
          (case decode_from h obj (pos + n) (drop (n - 1) cs) of
             Inl e \<Rightarrow> Inl e
           | Inr s \<Rightarrow> Inr (c # take (n - 1) cs @ s))
      | Invalid n reason \<Rightarrow>
          (case h of
             Strict \<Rightarrow> Inl (unicode_decode_error obj pos n reason)
           | Ignore \<Rightarrow> decode_from h obj (pos + n) (drop (n - 1) cs)
           | Replace \<Rightarrow>
               (case decode_from h obj (pos + n) (drop (n - 1) cs) of
                  Inl e \<Rightarrow> Inl e
                | Inr s \<Rightarrow> Inr (replacement_character @ s))))"

definition py_decode :: "errors \<Rightarrow> bytes \<Rightarrow> exn + string" where
  "py_decode h bs = decode_from h bs 0 bs"

section \<open>The file fetcher (\<^verbatim>\<open>ssh_download.py\<close>)\<close>

text \<open>The body of the \<^verbatim>\<open>try\<close> block.\<close>

definition download_body ::
  "remote \<Rightarrow> string \<Rightarrow> string \<Rightarrow> string \<Rightarrow> string \<Rightarrow> string \<Rightarrow> world \<Rightarrow>
     (exn + bool) \<times> world" where
  "download_body env host username password remote_path local_path w0 =
     (case py_print env (''Connecting to '' @ host @ ''...'') w0 of
        (Some e, w1) \<Rightarrow> (Inl e, w1)
      | (None, w1) \<Rightarrow>
     (case call env (Connect host username password) w1 of
        (Some e, w2) \<Rightarrow> (Inl e, w2)
      | (None, w2) \<Rightarrow>
     (case py_print env ''Connected!'' w2 of
        (Some e, w3) \<Rightarrow> (Inl e, w3)
      | (None, w3) \<Rightarrow>
     (case call env OpenSftp w3 of
        (Some e, w4) \<Rightarrow> (Inl e, w4)
      | (None, w4) \<Rightarrow>
     (case py_print env (''Downloading '' @ remote_path @ '' to '' @ local_path @ ''...'') w4 of
        (Some e, w5) \<Rightarrow> (Inl e, w5)
      | (None, w5) \<Rightarrow>
     (case call env (SftpGet remote_path local_path) w5 of
        (Some e, w6) \<Rightarrow> (Inl e, w6)
      | (None, w6) \<Rightarrow>
     (case py_print env ''Download complete!'' w6 of
        (Some e, w7) \<Rightarrow> (Inl e, w7)
      | (None, w7) \<Rightarrow>
     (case call env SftpClose w7 of
        (Some e, w8) \<Rightarrow> (Inl e, w8)
      | (None, w8) \<Rightarrow> (Inr True, w8)))))))))"

definition download_file ::
  "remote \<Rightarrow> string \<Rightarrow> string \<Rightarrow> string \<Rightarrow> string \<Rightarrow> string \<Rightarrow> world \<Rightarrow>
     (exn + bool) \<times> world" where
  "download_file env host username password remote_path local_path w =
     (case new_client env w of
        (Some e, w') \<Rightarrow> (Inl e, w')
      | (None, w') \<Rightarrow>
          except_finally env (\<lambda>msg. False)
            (download_body env host username password remote_path local_path w'))"

definition the_host :: string where
  "the_host = ''74.91.11.165''"

definition the_username :: string where
  "the_username = ''user289978''"

definition the_password :: string where
  "the_password = ''cnd77867fdh''"

definition default_remote_path :: string where
  "default_remote_path = ''/tmp/sim_screenshot3.png''"

definition default_local_path :: string where
  "default_local_path = ''C:/Users/snpsa/love-ledger/scripts/sim_screenshot3.png''"

text \<open>The script's main block; \<open>argv\<close> is \<^verbatim>\<open>sys.argv\<close>, the script's name first.\<close>

definition ssh_download_main :: "remote \<Rightarrow> string list \<Rightarrow> world \<Rightarrow> (exn + bool) \<times> world" where
  "ssh_download_main env argv w =
     (let (remote_path, local_path) =
            (if length argv \<ge> 3 then (argv ! 1, argv ! 2)
             else (default_remote_path, default_local_path))
      in download_file env the_host the_username the_password remote_path local_path w)"

section \<open>The command runner (\<^verbatim>\<open>ssh_mac.py\<close>)\<close>

text \<open>
  The body of the \<^verbatim>\<open>try\<close> block. \<^verbatim>\<open>stdout.read()\<close> and \<^verbatim>\<open>stderr.read()\<close>
  block until the remote command has ended and closed the stream; \<^verbatim>\<open>.decode()\<close> is
  the strict UTF-8 decoder. The value is Python's pair \<^verbatim>\<open>(output, errors)\<close>.
\<close>

definition run_ssh_body ::
  "remote \<Rightarrow> string \<Rightarrow> string \<Rightarrow> string \<Rightarrow> string \<Rightarrow> world \<Rightarrow>
     (exn + string option \<times> string) \<times> world" where
  "run_ssh_body env host username password command w0 =
     (case py_print env (''Connecting to '' @ host @ ''...'') w0 of
        (Some e, w1) \<Rightarrow> (Inl e, w1)
      | (None, w1) \<Rightarrow>
     (case call env (Connect host username password) w1 of
        (Some e, w2) \<Rightarrow> (Inl e, w2)
      | (None, w2) \<Rightarrow>
     (case py_print env ''Connected!'' w2 of
        (Some e, w3) \<Rightarrow> (Inl e, w3)
      | (None, w3) \<Rightarrow>
     (case call env (ExecCommand command) w3 of
        (Some e, w4) \<Rightarrow> (Inl e, w4)
      | (None, w4) \<Rightarrow>
     (case call env ReadStdout w4 of
        (Some e, w5) \<Rightarrow> (Inl e, w5)
      | (None, w5) \<Rightarrow>
     (case py_decode Strict (fst (remote_exec env command)) of
        Inl e \<Rightarrow> (Inl e, w5)
      | Inr output \<Rightarrow>
     (case call env ReadStderr w5 of
        (Some e, w6) \<Rightarrow> (Inl e, w6)
      | (None, w6) \<Rightarrow>
     (case py_decode Strict (snd (remote_exec env command)) of
        Inl e \<Rightarrow> (Inl e, w6)
      | Inr errors \<Rightarrow>
     (case (if output \<noteq> [] then
              (case py_print env ''STDOUT:'' w6 of
                 (Some e, w') \<Rightarrow> (Some e, w')
               | (None, w') \<Rightarrow> py_print env output w')
            else (None, w6)) of
        (Some e, w7) \<Rightarrow> (Inl e, w7)
      | (None, w7) \<Rightarrow>
     (case (if errors \<noteq> [] then
              (case py_print env ''STDERR:'' w7 of
                 (Some e, w') \<Rightarrow> (Some e, w')
               | (None, w') \<Rightarrow> py_print env errors w')
            else (None, w7)) of
        (Some e, w8) \<Rightarrow> (Inl e, w8)
      | (None, w8) \<Rightarrow> (Inr (Some output, errors), w8)))))))))))"

text \<open>The handler returns \<^verbatim>\<open>(None, str(e))\<close>.\<close>

definition run_ssh_command ::
  "remote \<Rightarrow> string \<Rightarrow> string \<Rightarrow> string \<Rightarrow> string \<Rightarrow> world \<Rightarrow>
     (exn + string option \<times> string) \<times> world" where
  "run_ssh_command env host username password command w =
     (case new_client env w of
        (Some e, w') \<Rightarrow> (Inl e, w')
      | (None, w') \<Rightarrow>
          except_finally env (\<lambda>msg. (None, msg))
            (run_ssh_body env host username password command w'))"

definition default_command :: string where
  "default_command = ''pwd && ls -la''"

definition ssh_mac_main ::
  "remote \<Rightarrow> string list \<Rightarrow> world \<Rightarrow> (exn + string option \<times> string) \<times> world" where
  "ssh_mac_main env argv w =
     (let command = (if length argv > 1 then argv ! 1 else default_command)
      in run_ssh_command env the_host the_username the_password command w)"

section \<open>The interactive session driver (\<^verbatim>\<open>ssh_mac_interactive.py\<close>)\<close>

text \<open>
  \<^verbatim>\<open>channel.recv_ready()\<close> says whether the channel's buffer holds data;
  \<^verbatim>\<open>channel.recv(n)\<close> takes up to \<open>n\<close> bytes out of it.
\<close>

definition recv_ready :: "remote \<Rightarrow> world \<Rightarrow> (exn + bool) \<times> world" where
  "recv_ready env w =
     (case call env RecvReady w of
        (Some e, w') \<Rightarrow> (Inl e, w')
      | (None, w') \<Rightarrow> (Inr (inbuf w' \<noteq> []), w'))"

definition recv :: "remote \<Rightarrow> nat \<Rightarrow> world \<Rightarrow> (exn + bytes) \<times> world" where
  "recv env nbytes w =
     (case call env (Recv nbytes) w of
        (Some e, w') \<Rightarrow> (Inl e, w')
      | (None, w') \<Rightarrow> (Inr (take nbytes (inbuf w')), w'\<lparr>inbuf := drop nbytes (inbuf w')\<rparr>))"

text \<open>\<^verbatim>\<open>while channel.recv_ready(): channel.recv(4096)\<close>\<close>

function drain_banner :: "remote \<Rightarrow> world \<Rightarrow> exn option \<times> world" where
  "drain_banner env w =
     (case recv_ready env w of
        (Inl e, w1) \<Rightarrow> (Some e, w1)
      | (Inr ready, w1) \<Rightarrow>
          if ready then
            (case recv env 4096 w1 of
               (Inl e, w2) \<Rightarrow> (Some e, w2)
             | (Inr data, w2) \<Rightarrow> drain_banner env w2)
          else (None, w1))"
  by pat_completeness auto
termination
proof (relation "measure (\<lambda>(env, w). length (inbuf w))")
  show "wf (measure (\<lambda>(env :: remote, w). length (inbuf w)))"
    by simp
next
  fix env :: remote and w :: world and x1 w1 ready x2 w2 data
  assume "(x1, w1) = recv_ready env w" and "x1 = Inr ready" and "ready"
    and "(x2, w2) = recv env 4096 w1" and "x2 = Inr data"
  then show "((env, w2), (env, w)) \<in> measure (\<lambda>(env, w). length (inbuf w))"
    by (auto simp: recv_ready_def recv_def call_def log_def split: option.splits)
qed

text \<open>
  The collection loop of one command. It runs for as long as data keeps arriving, so it
  is a partial function: \<open>None\<close> is the loop that never ends.
\<close>

partial_function (option) collect ::
  "remote \<Rightarrow> int \<Rightarrow> string \<Rightarrow> world \<Rightarrow> ((exn + string) \<times> world) option" where
  "collect env start_time output w =
     (if clock w - start_time < 300 then
        (case recv_ready env w of
           (Inl e, w1) \<Rightarrow> Some (Inl e, w1)
         | (Inr ready, w1) \<Rightarrow>
             if ready then
               (case recv env 4096 w1 of
                  (Inl e, w2) \<Rightarrow> Some (Inl e, w2)
                | (Inr bs, w2) \<Rightarrow>
                    (case py_decode Ignore bs of
                       Inl e \<Rightarrow> Some (Inl e, w2)
                     | Inr data \<Rightarrow>
                         (case py_print_noend env data w2 of
                            (Some e, w3) \<Rightarrow> Some (Inl e, w3)
                          | (None, w3) \<Rightarrow> collect env (clock w3) (output @ data) w3)))
             else
               (case py_sleep env 1 w1 of
                  (Some e, w2) \<Rightarrow> Some (Inl e, w2)
                | (None, w2) \<Rightarrow> collect env start_time output w2))
      else Some (Inr output, w))"

text \<open>One round of the \<^verbatim>\<open>for\<close> loop; its value is the round's \<^verbatim>\<open>output\<close>.\<close>

definition run_command ::
  "remote \<Rightarrow> string \<Rightarrow> world \<Rightarrow> ((exn + string) \<times> world) option" where
  "run_command env cmd w0 =
     (case py_print env (''\<newline>>>> Running: '' @ cmd) w0 of
        (Some e, w1) \<Rightarrow> Some (Inl e, w1)
      | (None, w1) \<Rightarrow>
     (case call env (Send (cmd @ ''\<newline>'')) w1 of
        (Some e, w2) \<Rightarrow> Some (Inl e, w2)
      | (None, w2) \<Rightarrow>
     (case py_sleep env 20 w2 of
        (Some e, w3) \<Rightarrow> Some (Inl e, w3)
      | (None, w3) \<Rightarrow> collect env (clock w3) [] w3)))"

text \<open>The \<^verbatim>\<open>for\<close> loop: each round's output is dropped when the next round begins.\<close>

fun run_commands :: "remote \<Rightarrow> string list \<Rightarrow> world \<Rightarrow> (exn option \<times> world) option" where
  "run_commands env [] w = Some (None, w)"
| "run_commands env (cmd # cmds) w =
     (case run_command env cmd w of
        None \<Rightarrow> None
      | Some (Inl e, w') \<Rightarrow> Some (Some e, w')
      | Some (Inr output, w') \<Rightarrow> run_commands env cmds w')"

definition interactive_body ::
  "remote \<Rightarrow> string \<Rightarrow> string \<Rightarrow> string \<Rightarrow> string list \<Rightarrow> int \<Rightarrow> world \<Rightarrow>
     ((exn + bool) \<times> world) option" where
  "interactive_body env host username password commands timeout w0 =
     (case py_print env (''Connecting to '' @ host @ ''...'') w0 of
        (Some e, w1) \<Rightarrow> Some (Inl e, w1)
      | (None, w1) \<Rightarrow>
     (case call env (Connect host username password) w1 of
        (Some e, w2) \<Rightarrow> Some (Inl e, w2)
      | (None, w2) \<Rightarrow>
     (case py_print env ''Connected!'' w2 of
        (Some e, w3) \<Rightarrow> Some (Inl e, w3)
      | (None, w3) \<Rightarrow>
     (case call env InvokeShell w3 of
        (Some e, w4) \<Rightarrow> Some (Inl e, w4)
      | (None, w4) \<Rightarrow>
     (case call env (SetTimeout timeout) w4 of
        (Some e, w5) \<Rightarrow> Some (Inl e, w5)
      | (None, w5) \<Rightarrow>
     (case py_sleep env 10 w5 of
        (Some e, w6) \<Rightarrow> Some (Inl e, w6)
      | (None, w6) \<Rightarrow>
     (case drain_banner env w6 of
        (Some e, w7) \<Rightarrow> Some (Inl e, w7)
      | (None, w7) \<Rightarrow>
     (case run_commands env commands w7 of
        None \<Rightarrow> None
      | Some (Some e, w8) \<Rightarrow> Some (Inl e, w8)
      | Some (None, w8) \<Rightarrow> Some (Inr True, w8)))))))))"

definition run_interactive_ssh ::
  "remote \<Rightarrow> string \<Rightarrow> string \<Rightarrow> string \<Rightarrow> string list \<Rightarrow> int \<Rightarrow> world \<Rightarrow>
     ((exn + bool) \<times> world) option" where
  "run_interactive_ssh env host username password commands timeout w =
     (case new_client env w of
        (Some e, w') \<Rightarrow> Some (Inl e, w')
      | (None, w') \<Rightarrow>
          map_option (except_finally env (\<lambda>msg. False))
            (interactive_body env host username password commands timeout w'))"

definition default_commands :: "string list" where
  \<open>default_commands =
     [''export NVM_DIR="/Users/user289978/.nvm" && [ -s "$NVM_DIR/nvm.sh" ] && . "$NVM_DIR/nvm.sh"'',
      ''cd ~/love-ledger && npx expo start --ios --no-dev --minify 2>&1 &'',
      ''sleep 10 && echo "Metro started, checking status..."'',
      ''curl -s http://localhost:8081/status || echo "Metro not responding yet"'']\<close>

definition ssh_mac_interactive_main ::
  "remote \<Rightarrow> string list \<Rightarrow> world \<Rightarrow> ((exn + bool) \<times> world) option" where
  "ssh_mac_interactive_main env argv w =
     (let commands = (if length argv > 1 then drop 1 argv else default_commands)
      in run_interactive_ssh env the_host the_username the_password commands 120 w)"

section \<open>What a run leaves behind\<close>

text \<open>The observations the properties below are stated in, all read off the trace.\<close>

definition prints_of :: "(int \<times> event) list \<Rightarrow> string list" where
  "prints_of evs = concat (map (\<lambda>(t, ev). case ev of Print s \<Rightarrow> [s] | _ \<Rightarrow> []) evs)"

definition printed :: "world \<Rightarrow> string list" where
  "printed w = concat (map (\<lambda>(t, ev). case ev of Print s \<Rightarrow> [s] | _ \<Rightarrow> []) (trace w))"

definition executed :: "world \<Rightarrow> string list" where
  "executed w = concat (map (\<lambda>(t, ev). case ev of ExecCommand c \<Rightarrow> [c] | _ \<Rightarrow> []) (trace w))"

definition close_calls :: "world \<Rightarrow> nat" where
  "close_calls w = length (filter (\<lambda>(t, ev). ev = Close) (trace w))"

text \<open>The events that a run adds to the trace it started with.\<close>

definition new_events :: "world \<Rightarrow> world \<Rightarrow> (int \<times> event) list" where
  "new_events w w' = drop (length (trace w)) (trace w')"

text \<open>The first exception among the \<open>n\<close> operations numbered from \<open>i\<close>, with its number.\<close>

fun first_fault :: "(nat \<Rightarrow> exn option) \<Rightarrow> nat \<Rightarrow> nat \<Rightarrow> (nat \<times> exn) option" where
  "first_fault f i 0 = None"
| "first_fault f i (Suc n) =
     (case f i of Some e \<Rightarrow> Some (i, e) | None \<Rightarrow> first_fault f (Suc i) n)"

text \<open>
  The specification's wording for the command runner's arguments, ``joined as one
  string'': the arguments with single spaces between them.
\<close>

fun spec_join_args :: "string list \<Rightarrow> string" where
  "spec_join_args [] = []"
| "spec_join_args [a] = a"
| "spec_join_args (a # b # rest) = a @ '' '' @ spec_join_args (b # rest)"

text \<open>A remote side that never fails and never says anything, and a fresh process.\<close>

definition silent_remote :: remote where
  "silent_remote = \<lparr>fault = (\<lambda>n. None), remote_exec = (\<lambda>c. ([], [])), feed = (\<lambda>t. [])\<rparr>"

definition fresh_world :: world where
  "fresh_world = \<lparr>clock = 0, ncalls = 0, inbuf = [], trace = []\<rparr>"

text \<open>A remote side on which the \<open>k\<close>-th operation of the run raises \<open>e\<close>, and nothing else.\<close>

definition failing_at :: "nat \<Rightarrow> exn \<Rightarrow> remote" where
  "failing_at k e =
     \<lparr>fault = (\<lambda>n. if n = k then Some e else None), remote_exec = (\<lambda>c. ([], [])),
      feed = (\<lambda>t. [])\<rparr>"
section \<open>Straight-line runs\<close>

text \<open>
  Apart from the two loops of the interactive driver, every function is a fixed sequence
  of operations that stops at the first one that raises. \<open>performed w evs\<close> is the
  world after the operations \<open>evs\<close> were started in \<open>w\<close> (none of them a sleep that
  ended or a read of the channel): the clock and the channel's buffer are as they were,
  the operations are counted and are on the trace, whether or not the last one raised.
\<close>

definition performed :: "world \<Rightarrow> event list \<Rightarrow> world" where
  "performed w evs =
     \<lparr>clock = clock w, ncalls = ncalls w + length evs, inbuf = inbuf w,
      trace = trace w @ map (Pair (clock w)) evs\<rparr>"

text \<open>A sequence of operations, up to and including the first one that raises.\<close>

fun calls :: "remote \<Rightarrow> event list \<Rightarrow> world \<Rightarrow> exn option \<times> world" where
  "calls env [] w = (None, w)"
| "calls env (ev # evs) w =
     (case call env ev w of
        (Some e, w') \<Rightarrow> (Some e, w')
      | (None, w') \<Rightarrow> calls env evs w')"

text \<open>
  The operations of \<^verbatim>\<open>if s: print(label); print(s)\<close>, the way the command runner
  shows a stream.
\<close>

definition stream_prints :: "string \<Rightarrow> string \<Rightarrow> event list" where
  "stream_prints label s =
     (if s \<noteq> [] then [Print (label @ newline), Print (s @ newline)] else [])"

text \<open>The commands among a list of operations.\<close>

definition execs_of :: "event list \<Rightarrow> string list" where
  "execs_of evs = concat (map (\<lambda>ev. case ev of ExecCommand c \<Rightarrow> [c] | _ \<Rightarrow> []) evs)"
section \<open>Properties\<close>

subsection \<open>Straight-line runs in closed form\<close>

lemma performed_sel [simp]:
  "clock (performed w evs) = clock w"
  "ncalls (performed w evs) = ncalls w + length evs"
  "inbuf (performed w evs) = inbuf w"
  "trace (performed w evs) = trace w @ map (Pair (clock w)) evs"
  by (simp_all add: performed_def)

lemma performed_Nil [simp]: "performed w [] = w"
  by (simp add: performed_def)

lemma performed_performed [simp]: "performed (performed w xs) ys = performed w (xs @ ys)"
  by (simp add: performed_def)

lemma first_fault_range:
  "first_fault f i n = Some (k, e) \<Longrightarrow> i \<le> k \<and> k < i + n \<and> f k = Some e"
proof (induction n arbitrary: i)
  case 0
  then show ?case by simp
next
  case (Suc n)
  show ?case
  proof (cases "f i")
    case None
    with Suc.prems have "first_fault f (Suc i) n = Some (k, e)" by simp
    from Suc.IH [OF this] show ?thesis by simp
  next
    case (Some e')
    with Suc.prems show ?thesis by simp
  qed
qed

lemma first_fault_None: "first_fault f i n = None \<longleftrightarrow> (\<forall>k. i \<le> k \<and> k < i + n \<longrightarrow> f k = None)"
proof (induction n arbitrary: i)
  case 0
  show ?case by auto
next
  case (Suc n)
  show ?case
  proof (cases "f i")
    case None
    have "(\<forall>k. i \<le> k \<and> k < i + Suc n \<longrightarrow> f k = None)
          \<longleftrightarrow> (\<forall>k. Suc i \<le> k \<and> k < Suc i + n \<longrightarrow> f k = None)"
      using None by (metis Suc_leD Suc_le_eq add_Suc add_Suc_right le_neq_implies_less)
    with None Suc.IH [of "Suc i"] show ?thesis by simp
  next
    case (Some e)
    then show ?thesis by auto
  qed
qed

lemma first_fault_add:
  "first_fault f i (m + n) =
     (case first_fault f i m of Some r \<Rightarrow> Some r | None \<Rightarrow> first_fault f (i + m) n)"
  by (induction m arbitrary: i) (auto split: option.splits)

lemma call_performed:
  "call env ev w = (fault env (ncalls w), performed w [ev])"
  by (cases w) (simp add: call_def log_def performed_def)

lemma calls_closed:
  "calls env evs w =
     (case first_fault (fault env) (ncalls w) (length evs) of
        None \<Rightarrow> (None, performed w evs)
      | Some (k, e) \<Rightarrow> (Some e, performed w (take (Suc k - ncalls w) evs)))"
proof (induction evs arbitrary: w)
  case Nil
  show ?case by simp
next
  case (Cons ev evs)
  show ?case
  proof (cases "fault env (ncalls w)")
    case (Some e)
    then show ?thesis by (simp add: call_performed)
  next
    case None
    show ?thesis
    proof (cases "first_fault (fault env) (Suc (ncalls w)) (length evs)")
      case n2: None
      then show ?thesis using None Cons [of "performed w [ev]"] by (simp add: call_performed)
    next
      case (Some r)
      obtain k e where r: "r = (k, e)" by (cases r)
      from first_fault_range [OF Some [unfolded r]] have "Suc (ncalls w) \<le> k" by simp
      then have "Suc k - ncalls w = Suc (k - ncalls w)" "Suc k - Suc (ncalls w) = k - ncalls w"
        by simp_all
      then show ?thesis
        using None Cons [of "performed w [ev]"] Some r by (simp add: call_performed)
    qed
  qed
qed

lemma calls_closedI:
  assumes "length evs = n"
  shows "calls env evs w =
     (case first_fault (fault env) (ncalls w) n of
        None \<Rightarrow> (None, performed w evs)
      | Some (k, e) \<Rightarrow> (Some e, performed w (take (Suc k - ncalls w) evs)))"
  unfolding assms [symmetric] by (rule calls_closed)

lemma except_finally_returns:
  "except_finally env handler (Inr v, w) =
     (case fault env (ncalls w) of None \<Rightarrow> Inr v | Some e' \<Rightarrow> Inl e', performed w [Close])"
  by (cases "fault env (ncalls w)")
    (simp_all add: except_finally_def client_close_def call_performed)

lemma except_finally_passes:
  "except_finally env handler (Inl (BaseException msg), w) =
     (case fault env (ncalls w) of None \<Rightarrow> Inl (BaseException msg) | Some e' \<Rightarrow> Inl e',
      performed w [Close])"
  by (cases "fault env (ncalls w)")
    (simp_all add: except_finally_def client_close_def call_performed)

lemma except_finally_handles:
  "except_finally env handler (Inl (Exception msg), w) =
     (case fault env (Suc (ncalls w)) of
        Some e' \<Rightarrow> Inl e'
      | None \<Rightarrow> (case fault env (ncalls w) of None \<Rightarrow> Inr (handler msg) | Some e1 \<Rightarrow> Inl e1),
      performed w [Print (''Error: '' @ msg @ newline), Close])"
  by (cases "fault env (ncalls w)"; cases "fault env (Suc (ncalls w))")
    (simp_all add: except_finally_def client_close_def py_print_def call_performed)

lemmas except_finally_simps =
  except_finally_returns except_finally_passes except_finally_handles

lemma new_client_calls: "new_client env w = calls env [NewClient, SetPolicy] w"
  by (simp add: new_client_def split: prod.splits option.splits)

lemma new_client_closed:
  "new_client env w =
     (case first_fault (fault env) (ncalls w) 2 of
        None \<Rightarrow> (None, performed w [NewClient, SetPolicy])
      | Some (k, e) \<Rightarrow> (Some e, performed w (take (Suc k - ncalls w) [NewClient, SetPolicy])))"
  unfolding new_client_calls
  by (subst calls_closedI [where n = 2]) (simp_all del: first_fault.simps)

lemma download_body_calls:
  "download_body env host username password remote_path local_path w =
     (case calls env
             [Print (''Connecting to '' @ host @ ''...'' @ newline),
              Connect host username password,
              Print (''Connected!'' @ newline),
              OpenSftp,
              Print (''Downloading '' @ remote_path @ '' to '' @ local_path @ ''...'' @ newline),
              SftpGet remote_path local_path,
              Print (''Download complete!'' @ newline),
              SftpClose] w of
        (Some e, w') \<Rightarrow> (Inl e, w')
      | (None, w') \<Rightarrow> (Inr True, w'))"
  by (simp add: download_body_def py_print_def split: prod.splits option.splits)

lemma calls_append:
  "calls env (xs @ ys) w =
     (case calls env xs w of (Some e, w') \<Rightarrow> (Some e, w') | (None, w') \<Rightarrow> calls env ys w')"
  by (induction xs arbitrary: w) (auto split: prod.splits option.splits)

lemma stream_prints_calls:
  "(if s \<noteq> [] then
      (case py_print env label w of
         (Some e, w') \<Rightarrow> (Some e, w')
       | (None, w') \<Rightarrow> py_print env s w')
    else (None, w)) = calls env (stream_prints label s) w"
  by (simp add: stream_prints_def py_print_def split: prod.splits option.splits)

lemma run_ssh_body_calls:
  "run_ssh_body env host username password command w =
     (case calls env
             [Print (''Connecting to '' @ host @ ''...'' @ newline),
              Connect host username password,
              Print (''Connected!'' @ newline),
              ExecCommand command,
              ReadStdout] w of
        (Some e, w5) \<Rightarrow> (Inl e, w5)
      | (None, w5) \<Rightarrow>
     (case py_decode Strict (fst (remote_exec env command)) of
        Inl e \<Rightarrow> (Inl e, w5)
      | Inr output \<Rightarrow>
     (case call env ReadStderr w5 of
        (Some e, w6) \<Rightarrow> (Inl e, w6)
      | (None, w6) \<Rightarrow>
     (case py_decode Strict (snd (remote_exec env command)) of
        Inl e \<Rightarrow> (Inl e, w6)
      | Inr errors \<Rightarrow>
     (case calls env (stream_prints ''STDOUT:'' output @ stream_prints ''STDERR:'' errors) w6 of
        (Some e, w8) \<Rightarrow> (Inl e, w8)
      | (None, w8) \<Rightarrow> (Inr (Some output, errors), w8))))))"
  unfolding run_ssh_body_def stream_prints_calls calls_append
  by (simp add: py_print_def split: prod.splits option.splits sum.splits)


lemma calls_5:
  "calls env [a, b, c, d, e] w =
     (case first_fault (fault env) (ncalls w) 5 of
        None \<Rightarrow> (None, performed w [a, b, c, d, e])
      | Some (k, x) \<Rightarrow> (Some x, performed w (take (Suc k - ncalls w) [a, b, c, d, e])))"
  by (rule calls_closedI) simp

lemma calls_8:
  "calls env [a, b, c, d, e, f, g, h] w =
     (case first_fault (fault env) (ncalls w) 8 of
        None \<Rightarrow> (None, performed w [a, b, c, d, e, f, g, h])
      | Some (k, x) \<Rightarrow>
          (Some x, performed w (take (Suc k - ncalls w) [a, b, c, d, e, f, g, h])))"
  by (rule calls_closedI) simp

lemma run_ssh_body_closed:
  "run_ssh_body env host username password command w =
     (let head = [Print (''Connecting to '' @ host @ ''...'' @ newline),
                  Connect host username password,
                  Print (''Connected!'' @ newline),
                  ExecCommand command,
                  ReadStdout]
      in
      case first_fault (fault env) (ncalls w) 5 of
        Some (k, e) \<Rightarrow> (Inl e, performed w (take (Suc k - ncalls w) head))
      | None \<Rightarrow>
      (case py_decode Strict (fst (remote_exec env command)) of
         Inl e \<Rightarrow> (Inl e, performed w head)
       | Inr output \<Rightarrow>
      (case fault env (ncalls w + 5) of
         Some e \<Rightarrow> (Inl e, performed w (head @ [ReadStderr]))
       | None \<Rightarrow>
      (case py_decode Strict (snd (remote_exec env command)) of
         Inl e \<Rightarrow> (Inl e, performed w (head @ [ReadStderr]))
       | Inr errors \<Rightarrow>
      (let prints = stream_prints ''STDOUT:'' output @ stream_prints ''STDERR:'' errors in
       case first_fault (fault env) (ncalls w + 6) (length prints) of
         Some (k, e) \<Rightarrow>
           (Inl e, performed w (head @ [ReadStderr] @ take (Suc k - (ncalls w + 6)) prints))
       | None \<Rightarrow>
           (Inr (Some output, errors), performed w (head @ [ReadStderr] @ prints)))))))"
  unfolding run_ssh_body_calls Let_def calls_5
  by (simp add: calls_closed call_performed eval_nat_numeral del: first_fault.simps
      split: option.splits sum.splits)


lemma download_body_closed:
  "download_body env host username password remote_path local_path w =
     (let steps = [Print (''Connecting to '' @ host @ ''...'' @ newline),
                   Connect host username password,
                   Print (''Connected!'' @ newline),
                   OpenSftp,
                   Print (''Downloading '' @ remote_path @ '' to '' @ local_path @ ''...''
                          @ newline),
                   SftpGet remote_path local_path,
                   Print (''Download complete!'' @ newline),
                   SftpClose]
      in
      case first_fault (fault env) (ncalls w) 8 of
        Some (k, e) \<Rightarrow> (Inl e, performed w (take (Suc k - ncalls w) steps))
      | None \<Rightarrow> (Inr True, performed w steps))"
  unfolding download_body_calls Let_def calls_8
  by (simp del: first_fault.simps split: option.splits)

lemma download_file_closed:
  "download_file env host username password remote_path local_path w =
     (let n = ncalls w;
          setup = [NewClient, SetPolicy];
          steps = [Print (''Connecting to '' @ host @ ''...'' @ newline),
                   Connect host username password,
                   Print (''Connected!'' @ newline),
                   OpenSftp,
                   Print (''Downloading '' @ remote_path @ '' to '' @ local_path @ ''...''
                          @ newline),
                   SftpGet remote_path local_path,
                   Print (''Download complete!'' @ newline),
                   SftpClose];
          raised = (\<lambda>e done.
            case e of
              Exception msg \<Rightarrow>
                (case fault env (n + length done + 1) of
                   Some e' \<Rightarrow> Inl e'
                 | None \<Rightarrow>
                     (case fault env (n + length done) of
                        None \<Rightarrow> Inr False
                      | Some e1 \<Rightarrow> Inl e1),
                 performed w (done @ [Print (''Error: '' @ msg @ newline), Close]))
            | BaseException msg \<Rightarrow>
                (case fault env (n + length done) of
                   None \<Rightarrow> Inl e
                 | Some e' \<Rightarrow> Inl e',
                 performed w (done @ [Close])))
      in
      case first_fault (fault env) n 2 of
        Some (k, e) \<Rightarrow> (Inl e, performed w (take (Suc k - n) setup))
      | None \<Rightarrow>
          (case first_fault (fault env) (n + 2) 8 of
             Some (k, e) \<Rightarrow> raised e (setup @ take (Suc k - (n + 2)) steps)
           | None \<Rightarrow>
               (case fault env (n + 10) of
                  None \<Rightarrow> Inr True
                | Some e' \<Rightarrow> Inl e',
                performed w (setup @ steps @ [Close]))))"
  unfolding download_file_def new_client_closed download_body_closed Let_def
  by (simp add: except_finally_simps eval_nat_numeral add.commute del: first_fault.simps
      split: option.splits exn.splits)

lemma run_ssh_command_closed:
  "run_ssh_command env host username password command w =
     (let n = ncalls w;
          setup = [NewClient, SetPolicy];
          head = [Print (''Connecting to '' @ host @ ''...'' @ newline),
                  Connect host username password,
                  Print (''Connected!'' @ newline),
                  ExecCommand command,
                  ReadStdout];
          raised = (\<lambda>e done.
            case e of
              Exception msg \<Rightarrow>
                (case fault env (n + length done + 1) of
                   Some e' \<Rightarrow> Inl e'
                 | None \<Rightarrow>
                     (case fault env (n + length done) of
                        None \<Rightarrow> Inr (None, msg)
                      | Some e1 \<Rightarrow> Inl e1),
                 performed w (done @ [Print (''Error: '' @ msg @ newline), Close]))
            | BaseException msg \<Rightarrow>
                (case fault env (n + length done) of
                   None \<Rightarrow> Inl e
                 | Some e' \<Rightarrow> Inl e',
                 performed w (done @ [Close])))
      in
      case first_fault (fault env) n 2 of
        Some (k, e) \<Rightarrow> (Inl e, performed w (take (Suc k - n) setup))
      | None \<Rightarrow>
      (case first_fault (fault env) (n + 2) 5 of
         Some (k, e) \<Rightarrow> raised e (setup @ take (Suc k - (n + 2)) head)
       | None \<Rightarrow>
      (case py_decode Strict (fst (remote_exec env command)) of
         Inl e \<Rightarrow> raised e (setup @ head)
       | Inr output \<Rightarrow>
      (case fault env (n + 7) of
         Some e \<Rightarrow> raised e (setup @ head @ [ReadStderr])
       | None \<Rightarrow>
      (case py_decode Strict (snd (remote_exec env command)) of
         Inl e \<Rightarrow> raised e (setup @ head @ [ReadStderr])
       | Inr errors \<Rightarrow>
      (let prints = stream_prints ''STDOUT:'' output @ stream_prints ''STDERR:'' errors in
       case first_fault (fault env) (n + 8) (length prints) of
         Some (k, e) \<Rightarrow>
           raised e (setup @ head @ [ReadStderr] @ take (Suc k - (n + 8)) prints)
       | None \<Rightarrow>
           (case fault env (n + 8 + length prints) of
              None \<Rightarrow> Inr (Some output, errors)
            | Some e' \<Rightarrow> Inl e',
            performed w (setup @ head @ [ReadStderr] @ prints @ [Close]))))))))"
  unfolding run_ssh_command_def new_client_closed run_ssh_body_closed Let_def
  by (simp add: except_finally_simps eval_nat_numeral add.commute add.left_commute
      del: first_fault.simps split: option.splits exn.splits sum.splits)

lemma execs_of_simps [simp]:
  "execs_of [] = []"
  "execs_of (ev # evs) = (case ev of ExecCommand c \<Rightarrow> [c] | _ \<Rightarrow> []) @ execs_of evs"
  "execs_of (xs @ ys) = execs_of xs @ execs_of ys"
  by (simp_all add: execs_of_def)

lemma executed_performed [simp]: "executed (performed w evs) = executed w @ execs_of evs"
  by (simp add: executed_def execs_of_def performed_def map_concat comp_def case_prod_beta)

lemma execs_of_stream_prints [simp]: "execs_of (take j (stream_prints label s)) = []"
  by (simp add: stream_prints_def take_Cons')

lemma execs_of_stream_prints' [simp]: "execs_of (stream_prints label s) = []"
  by (simp add: stream_prints_def)

lemma execs_of_take_append:
  "execs_of (take j (xs @ ys)) = execs_of (take j xs) @ execs_of (take (j - length xs) ys)"
  by simp

lemma execs_of_setup [simp]: "execs_of (take j [NewClient, SetPolicy]) = []"
  by (simp add: take_Cons')

lemma execs_of_head:
  "execs_of (take j [Print a, Connect h u p, Print b, ExecCommand c, ReadStdout]) =
     (if 4 \<le> j then [c] else [])"
  by (simp add: take_Cons')

lemma run_ssh_command_executed:
  "executed (snd (run_ssh_command env host username password command w)) =
     executed w @ (if first_fault (fault env) (ncalls w) 5 = None then [command] else [])"
proof -
  let ?f = "fault env"
  define m where "m = ncalls w + 2"
  note cf = run_ssh_command_closed [of env host username password command w,
      unfolded Let_def, folded m_def]
  have s5: "first_fault ?f (ncalls w) 5 =
      (case first_fault ?f (ncalls w) 2 of Some r \<Rightarrow> Some r | None \<Rightarrow> first_fault ?f m 3)"
    using first_fault_add [of ?f "ncalls w" 2 3] unfolding m_def by simp
  have t5: "first_fault ?f m 5 =
      (case first_fault ?f m 3 of Some r \<Rightarrow> Some r | None \<Rightarrow> first_fault ?f (m + 3) 2)"
    using first_fault_add [of ?f m 3 2] by simp
  show ?thesis
  proof (cases "first_fault ?f (ncalls w) 2")
    case (Some r)
    then show ?thesis
      using cf s5 by (cases r) (simp del: first_fault.simps)
  next
    case None
    show ?thesis
    proof (cases "first_fault ?f m 3")
      case (Some r)
      obtain k e where r: "r = (k, e)" by (cases r)
      from first_fault_range [OF Some [unfolded r]] have "Suc k - m < 4" by linarith
      then show ?thesis
        using cf s5 t5 None Some r
        by (cases e) (simp_all add: execs_of_head del: first_fault.simps)
    next
      case n3: None
      show ?thesis
      proof (cases "first_fault ?f (m + 3) 2")
        case (Some r)
        obtain k e where r: "r = (k, e)" by (cases r)
        from first_fault_range [OF Some [unfolded r]] have "4 \<le> Suc k - m" by linarith
        then show ?thesis
          using cf s5 t5 None n3 Some r
          by (cases e) (simp_all add: execs_of_head del: first_fault.simps)
      next
        case n2: None
        show ?thesis
          using cf s5 t5 None n3 n2
          by (simp del: first_fault.simps
              split: option.splits sum.splits exn.splits prod.splits)
      qed
    qed
  qed
qed

lemma decode_strict_id: "decode_from Strict obj pos bs = Inr s \<Longrightarrow> s = bs"
proof (induction "Strict" obj pos bs arbitrary: s rule: decode_from.induct)
  case (1 obj pos)
  then show ?case by simp
next
  case (2 obj pos c cs)
  show ?case
  proof (cases "utf8_next (c # cs)")
    case (Valid n)
    with "2.prems" obtain s' where
      s': "decode_from Strict obj (pos + n) (drop (n - 1) cs) = Inr s'" "s = c # take (n - 1) cs @ s'"
      by (auto simp del: utf8_next.simps split: sum.splits)
    from "2.hyps"(1) [OF Valid s'(1)] s'(2) show ?thesis by simp
  next
    case (Invalid n reason)
    with "2.prems" show ?thesis by (simp del: utf8_next.simps add: unicode_decode_error_def)
  qed
qed

lemma py_decode_strict_id: "py_decode Strict bs = Inr s \<Longrightarrow> s = bs"
  unfolding py_decode_def by (rule decode_strict_id)

subsection \<open>The main blocks\<close>

text \<open>
  Claim C9. With exactly one command-line argument the file fetcher ignores it: it
  downloads the built-in remote path to the built-in local path, exactly as it does with
  no argument at all.
\<close>

theorem ssh_download_main_one_argument:
  "ssh_download_main env [script, arg] w =
     download_file env the_host the_username the_password
       default_remote_path default_local_path w
   \<and> ssh_download_main env [script, arg] w = ssh_download_main env [script] w"
  by (simp add: ssh_download_main_def)

text \<open>
  Claim C4, as the specification words it, fails: with the two arguments \<^verbatim>\<open>ls\<close> and
  \<^verbatim>\<open>-la\<close> the command runner executes \<^verbatim>\<open>ls\<close>, not the joined \<^verbatim>\<open>ls -la\<close>.
\<close>

theorem ssh_mac_main_does_not_join:
  "executed (snd (ssh_mac_main silent_remote [''ssh_mac.py'', ''ls'', ''-la''] fresh_world))
     = [''ls'']
   \<and> executed (snd (ssh_mac_main silent_remote [''ssh_mac.py'', ''ls'', ''-la''] fresh_world))
     \<noteq> [spec_join_args [''ls'', ''-la'']]"
  by (simp add: ssh_mac_main_def run_ssh_command_def run_ssh_body_def except_finally_def
      new_client_def py_print_def client_close_def call_performed executed_def
      silent_remote_def fresh_world_def py_decode_def)

text \<open>
  Claim C4, amended. The command runner executes at most one command: the first
  command-line argument alone when there is one (later arguments are not used), and
  \<^verbatim>\<open>pwd && ls -la\<close> when there is none. It executes it exactly when none of the five
  operations in front of \<^verbatim>\<open>exec_command\<close> raises (making the client, setting its
  policy, the first progress message, \<^verbatim>\<open>connect\<close>, the second progress message).
\<close>

theorem ssh_mac_main_command:
  "executed (snd (ssh_mac_main env argv w)) =
     executed w @
       (if first_fault (fault env) (ncalls w) 5 = None
        then [if length argv > 1 then argv ! 1 else ''pwd && ls -la'']
        else [])"
  unfolding ssh_mac_main_def Let_def run_ssh_command_executed default_command_def
  by (rule refl)

text \<open>
  The amended claim C4 at work: with nothing raising, \<^verbatim>\<open>ls\<close> is executed for the
  arguments \<^verbatim>\<open>ls -la\<close>, and \<^verbatim>\<open>pwd && ls -la\<close> for no argument.
\<close>

theorem ssh_mac_main_command_witness:
  "first_fault (fault silent_remote) (ncalls fresh_world) 5 = None
   \<and> executed (snd (ssh_mac_main silent_remote [''ssh_mac.py'', ''ls'', ''-la''] fresh_world))
       = executed fresh_world @ [''ls'']
   \<and> executed (snd (ssh_mac_main silent_remote [''ssh_mac.py''] fresh_world))
       = executed fresh_world @ [''pwd && ls -la'']"
proof -
  have h: "first_fault (fault silent_remote) (ncalls fresh_world) 5 = None"
    by (simp add: eval_nat_numeral silent_remote_def)
  show ?thesis
    using h ssh_mac_main_command [of silent_remote "[''ssh_mac.py'', ''ls'', ''-la'']" fresh_world]
      ssh_mac_main_command [of silent_remote "[''ssh_mac.py'']" fresh_world]
    by simp
qed

subsection \<open>The file fetcher\<close>

text \<open>
  Claim C7, as the specification words it, fails: a transfer can succeed and
  \<^verbatim>\<open>download_file\<close> still return false. Here \<^verbatim>\<open>sftp.get\<close> has fetched the file and
  \<^verbatim>\<open>Download complete!\<close> is printed, then closing the SFTP session raises; the
  handler turns that into \<^verbatim>\<open>Error: Socket is closed\<close> and the result false.
\<close>

theorem download_file_false_after_transfer:
  "download_file (failing_at 9 (Exception ''Socket is closed''))
       ''host'' ''user'' ''pw'' ''/tmp/a.png'' ''a.png'' fresh_world =
     (Inr False,
      performed fresh_world
        [NewClient, SetPolicy,
         Print (''Connecting to host...'' @ newline),
         Connect ''host'' ''user'' ''pw'',
         Print (''Connected!'' @ newline),
         OpenSftp,
         Print (''Downloading /tmp/a.png to a.png...'' @ newline),
         SftpGet ''/tmp/a.png'' ''a.png'',
         Print (''Download complete!'' @ newline),
         SftpClose,
         Print (''Error: Socket is closed'' @ newline),
         Close])"
  by (simp add: download_file_def download_body_def except_finally_def new_client_def
      py_print_def client_close_def call_performed failing_at_def fresh_world_def)

text \<open>
  Claim C7, amended: all that \<^verbatim>\<open>download_file\<close> does, for every fault plan. What is
  raised while the client is made leaves the function at once. After that the eight
  steps of the \<^verbatim>\<open>try\<close> block run up to the first one that raises, if any, and then:
  \<^item> when none raised (the SFTP session's close included), the client is closed and the
    result is true;
  \<^item> when the exception is an \<^verbatim>\<open>Exception\<close>, \<^verbatim>\<open>Error: ...\<close> with its text is printed,
    the client is closed and the result is false;
  \<^item> when it is not an \<^verbatim>\<open>Exception\<close>, the client is closed and the exception
    leaves the function;
  \<^item> in each case an exception raised by closing the client leaves the function in
    place of the result, and one raised by the handler's print does so unless closing
    the client raises too.
\<close>

theorem download_file_result:
  "download_file env host username password remote_path local_path w =
     (let n = ncalls w;
          setup = [NewClient, SetPolicy];
          steps = [Print (''Connecting to '' @ host @ ''...'' @ newline),
                   Connect host username password,
                   Print (''Connected!'' @ newline),
                   OpenSftp,
                   Print (''Downloading '' @ remote_path @ '' to '' @ local_path @ ''...''
                          @ newline),
                   SftpGet remote_path local_path,
                   Print (''Download complete!'' @ newline),
                   SftpClose];
          raised = (\<lambda>e done.
            case e of
              Exception msg \<Rightarrow>
                (case fault env (n + length done + 1) of
                   Some e' \<Rightarrow> Inl e'
                 | None \<Rightarrow>
                     (case fault env (n + length done) of
                        None \<Rightarrow> Inr False
                      | Some e1 \<Rightarrow> Inl e1),
                 performed w (done @ [Print (''Error: '' @ msg @ newline), Close]))
            | BaseException msg \<Rightarrow>
                (case fault env (n + length done) of
                   None \<Rightarrow> Inl e
                 | Some e' \<Rightarrow> Inl e',
                 performed w (done @ [Close])))
      in
      case first_fault (fault env) n 2 of
        Some (k, e) \<Rightarrow> (Inl e, performed w (take (Suc k - n) setup))
      | None \<Rightarrow>
          (case first_fault (fault env) (n + 2) 8 of
             Some (k, e) \<Rightarrow> raised e (setup @ take (Suc k - (n + 2)) steps)
           | None \<Rightarrow>
               (case fault env (n + 10) of
                  None \<Rightarrow> Inr True
                | Some e' \<Rightarrow> Inl e',
                performed w (setup @ steps @ [Close]))))"
  by (rule download_file_closed)

subsection \<open>The command runner\<close>

text \<open>
  Claim C8, as the specification words it, fails: an exception can occur and
  \<^verbatim>\<open>run_ssh_command\<close> return no pair at all. Here the command has run, both streams
  are read and the output is printed, then \<^verbatim>\<open>client.close()\<close> in the \<^verbatim>\<open>finally\<close>
  block raises, and that exception leaves the function.
\<close>

theorem run_ssh_command_close_raises:
  "run_ssh_command
       \<lparr>fault = (\<lambda>n. if n = 10 then Some (Exception ''Socket is closed'') else None),
        remote_exec = (\<lambda>c. (''ok'', [])), feed = (\<lambda>t. [])\<rparr>
       ''host'' ''user'' ''pw'' ''ls'' fresh_world =
     (Inl (Exception ''Socket is closed''),
      performed fresh_world
        [NewClient, SetPolicy,
         Print (''Connecting to host...'' @ newline),
         Connect ''host'' ''user'' ''pw'',
         Print (''Connected!'' @ newline),
         ExecCommand ''ls'',
         ReadStdout,
         ReadStderr,
         Print (''STDOUT:'' @ newline),
         Print (''ok'' @ newline),
         Close])"
  by (simp add: run_ssh_command_def run_ssh_body_def except_finally_def new_client_def
      py_print_def client_close_def call_performed fresh_world_def py_decode_def)

text \<open>
  Claim C8, amended: all that \<^verbatim>\<open>run_ssh_command\<close> does, for every command, fault
  plan and pair of streams. What is raised while the client is made leaves the function
  at once. After that the \<^verbatim>\<open>try\<close> block runs up to the first step that raises, if
  any: one of its operations, or the strict decoding of a stream that is not UTF-8. Then:
  \<^item> when none raised, each stream that is not empty has been printed under its
    heading, after both streams were read to their end; the client is closed and the
    result is the pair of the decoded streams, which are the streams as they came;
  \<^item> when the exception is an \<^verbatim>\<open>Exception\<close>, \<^verbatim>\<open>Error: ...\<close> with its text is printed,
    the client is closed and the result is the pair of \<^verbatim>\<open>None\<close> and that text;
  \<^item> when it is not an \<^verbatim>\<open>Exception\<close>, the client is closed and the exception
    leaves the function;
  \<^item> in each case an exception raised by closing the client leaves the function in
    place of the result, and one raised by the handler's print does so unless closing
    the client raises too.
\<close>

theorem run_ssh_command_result:
  "(run_ssh_command env host username password command w =
     (let n = ncalls w;
          setup = [NewClient, SetPolicy];
          head = [Print (''Connecting to '' @ host @ ''...'' @ newline),
                  Connect host username password,
                  Print (''Connected!'' @ newline),
                  ExecCommand command,
                  ReadStdout];
          raised = (\<lambda>e done.
            case e of
              Exception msg \<Rightarrow>
                (case fault env (n + length done + 1) of
                   Some e' \<Rightarrow> Inl e'
                 | None \<Rightarrow>
                     (case fault env (n + length done) of
                        None \<Rightarrow> Inr (None, msg)
                      | Some e1 \<Rightarrow> Inl e1),
                 performed w (done @ [Print (''Error: '' @ msg @ newline), Close]))
            | BaseException msg \<Rightarrow>
                (case fault env (n + length done) of
                   None \<Rightarrow> Inl e
                 | Some e' \<Rightarrow> Inl e',
                 performed w (done @ [Close])))
      in
      case first_fault (fault env) n 2 of
        Some (k, e) \<Rightarrow> (Inl e, performed w (take (Suc k - n) setup))
      | None \<Rightarrow>
      (case first_fault (fault env) (n + 2) 5 of
         Some (k, e) \<Rightarrow> raised e (setup @ take (Suc k - (n + 2)) head)
       | None \<Rightarrow>
      (case py_decode Strict (fst (remote_exec env command)) of
         Inl e \<Rightarrow> raised e (setup @ head)
       | Inr output \<Rightarrow>
      (case fault env (n + 7) of
         Some e \<Rightarrow> raised e (setup @ head @ [ReadStderr])
       | None \<Rightarrow>
      (case py_decode Strict (snd (remote_exec env command)) of
         Inl e \<Rightarrow> raised e (setup @ head @ [ReadStderr])
       | Inr errors \<Rightarrow>
      (let prints = stream_prints ''STDOUT:'' output @ stream_prints ''STDERR:'' errors in
       case first_fault (fault env) (n + 8) (length prints) of
         Some (k, e) \<Rightarrow>
           raised e (setup @ head @ [ReadStderr] @ take (Suc k - (n + 8)) prints)
       | None \<Rightarrow>
           (case fault env (n + 8 + length prints) of
              None \<Rightarrow> Inr (Some output, errors)
            | Some e' \<Rightarrow> Inl e',
            performed w (setup @ head @ [ReadStderr] @ prints @ [Close])))))))))
   \<and> (case py_decode Strict (fst (remote_exec env command)) of
         Inl e \<Rightarrow> True
       | Inr output \<Rightarrow> output = fst (remote_exec env command))
   \<and> (case py_decode Strict (snd (remote_exec env command)) of
         Inl e \<Rightarrow> True
       | Inr errors \<Rightarrow> errors = snd (remote_exec env command))"
proof (intro conjI)
  show "case py_decode Strict (fst (remote_exec env command)) of
          Inl e \<Rightarrow> True
        | Inr output \<Rightarrow> output = fst (remote_exec env command)"
    by (auto split: sum.splits dest: py_decode_strict_id)
  show "case py_decode Strict (snd (remote_exec env command)) of
          Inl e \<Rightarrow> True
        | Inr errors \<Rightarrow> errors = snd (remote_exec env command)"
    by (auto split: sum.splits dest: py_decode_strict_id)
qed (rule run_ssh_command_closed)

end
